theory Spec2Isabelle
  imports Main
begin

section \<open>Python primitives used by the VM control plane\<close>

text \<open>
  The model follows \<^verbatim>\<open>src/main.py\<close>, class \<^verbatim>\<open>VM\<close> and the helper
  \<^verbatim>\<open>find_qemu\<close>. Strings are byte strings; Python integers are \<^typ>\<open>int\<close>.
\<close>

text \<open>\<^verbatim>\<open>str(n)\<close> for an integer: decimal digits, a leading minus sign when negative.\<close>

fun str_nat :: "nat \<Rightarrow> string" where
  "str_nat n =
     (if n < 10 then [''0123456789'' ! n]
      else str_nat (n div 10) @ [''0123456789'' ! (n mod 10)])"

declare str_nat.simps [simp del]

definition str_int :: "int \<Rightarrow> string" where
  "str_int i = (if i < 0 then CHR ''-'' # str_nat (nat (- i)) else str_nat (nat i))"

text \<open>
  \<^verbatim>\<open>s.split()\<close> without arguments: the maximal runs of non-whitespace characters.
  The ASCII characters Python counts as whitespace are 9 to 13, 28 to 31 and 32; text
  outside ASCII, where Python knows further white space, is not modelled.
\<close>

definition py_isspace :: "char \<Rightarrow> bool" where
  "py_isspace c = ((of_char c :: nat) \<in> {9, 10, 11, 12, 13, 28, 29, 30, 31, 32})"

fun split_ws :: "string \<Rightarrow> string \<Rightarrow> string list" where
  "split_ws cur [] = (if cur = [] then [] else [cur])"
| "split_ws cur (c # cs) =
     (if py_isspace c then (if cur = [] then split_ws [] cs else cur # split_ws [] cs)
      else split_ws (cur @ [c]) cs)"

definition py_split :: "string \<Rightarrow> string list" where
  "py_split s = split_ws [] s"

text \<open>Truthiness of the optional values the code tests with \<^verbatim>\<open>if x:\<close>.\<close>

definition truthy_str :: "string option \<Rightarrow> bool" where
  "truthy_str x = (case x of None \<Rightarrow> False | Some s \<Rightarrow> s \<noteq> [])"

definition truthy_int :: "int option \<Rightarrow> bool" where
  "truthy_int x = (case x of None \<Rightarrow> False | Some i \<Rightarrow> i \<noteq> 0)"

definition truthy_bool :: "bool option \<Rightarrow> bool" where
  "truthy_bool x = (case x of None \<Rightarrow> False | Some b \<Rightarrow> b)"

text \<open>
  \<^verbatim>\<open>pathlib\<close>: \<^verbatim>\<open>a / b\<close> for a normalised left operand. The right operand is split at
  the slashes, empty and \<^verbatim>\<open>.\<close> components are dropped (\<^verbatim>\<open>..\<close> is kept as it is); an
  absolute right operand replaces the left one. Then \<^verbatim>\<open>str(Path(p))\<close>,
  \<^verbatim>\<open>Path(p).name\<close> (the last component) and \<^verbatim>\<open>name.split("/", 1)[0]\<close>. Paths are compared as strings: two paths that reach one
  file through \<^verbatim>\<open>..\<close> or a link are different keys of the file system below.
\<close>

fun split_slash :: "string \<Rightarrow> string \<Rightarrow> string list" where
  "split_slash cur [] = [cur]"
| "split_slash cur (c # cs) =
     (if c = CHR ''/'' then cur # split_slash [] cs else split_slash (cur @ [c]) cs)"

definition path_parts :: "string \<Rightarrow> string list" where
  "path_parts p = filter (\<lambda>c. c \<noteq> [] \<and> c \<noteq> ''.'') (split_slash [] p)"

fun join_parts :: "string list \<Rightarrow> string" where
  "join_parts [] = []"
| "join_parts [c] = c"
| "join_parts (c # d # cs) = c @ ''/'' @ join_parts (d # cs)"

definition path_join :: "string \<Rightarrow> string \<Rightarrow> string" where
  "path_join a b =
     (if b \<noteq> [] \<and> hd b = CHR ''/'' then CHR ''/'' # join_parts (path_parts b)
      else if path_parts b = [] then a
      else (if a = ''/'' then a else a @ ''/'') @ join_parts (path_parts b))"




definition startswith :: "string \<Rightarrow> string \<Rightarrow> bool" where
  "startswith s pre = (take (length pre) s = pre)"

section \<open>Data model\<close>

text \<open>
  A DiskSpec is the dictionary \<^verbatim>\<open>{"path": ..., "format": ...}\<close>; the command builder
  reads the format with a default, so the key may be absent.
\<close>

record DiskSpec =
  path :: string
  format :: "string option"

text \<open>
  The \<^verbatim>\<open>advanced\<close> dictionary with the keys the code reads, typed as the code uses
  them (ports are integers, the others strings).
\<close>

record Advanced =
  qmp_port :: "int option"
  vnc_port :: "int option"
  machine :: "string option"
  ovmf_code :: "string option"
  tap_name :: "string option"

text \<open>
  The configuration document. Every key is read with \<^verbatim>\<open>cfg.get\<close>, so every field is
  optional: \<open>None\<close> is an absent key. The \<^verbatim>\<open>disks\<close> key is tested for presence, for
  truth and iterated, so for it an absent key, a stored \<^verbatim>\<open>null\<close> and a stored list are
  told apart. The other keys are taken to hold values of their type when present.
\<close>

datatype 'a entry = Absent | Null | Present 'a

record VMConfig =
  cfg_name :: "string option"
  created :: "string option"
  version :: "string option"
  cpu_cores :: "int option"
  memory_mib :: "int option"
  disk_gib :: "int option"
  disk_format :: "string option"
  efi :: "bool option"
  boot_order :: "string option"
  iso_path :: "string option"
  extra_args :: "string option"
  network_mode :: "string option"
  enable_kvm :: "bool option"
  graphics :: "string option"
  display_embed :: "bool option"
  advanced :: "Advanced option"
  disks :: "DiskSpec list entry"
  usb_passthrough :: "string list option"
  nested_virt :: "bool option"
  autostart :: "bool option"
  vga :: "string option"

text \<open>JSON values exchanged over the control protocol.\<close>

datatype json =
  JNull | JBool bool | JInt int | JStr string | JArr "json list" | JObj "(string \<times> json) list"

text \<open>
  What a path of the file system holds: a directory, a sparse file of zero bytes of a given
  apparent size, an image written by the external tool, a configuration document, an
  archive (its members in order), or other bytes.
\<close>

datatype node =
  Dir
| Sparse nat
| Image string
| Doc VMConfig
| Archive "(string \<times> node) list"
| Blob string


text \<open>The child process handle: its argument vector and what \<^verbatim>\<open>poll()\<close> returns.\<close>

record Popen =
  args :: "string list"
  returncode :: "int option"

text \<open>
  The control socket: the messages written to it, the chunks the peer has sent that the
  next calls of \<^verbatim>\<open>recv\<close> return, and a history flag, which the code has not and never
  reads: whether a call on this socket has raised.
\<close>

record socket =
  sent :: "string list"
  pending :: "string list"
  errored :: bool

record VM =
  name :: string
  config :: VMConfig
  proc :: "Popen option"
  qmp_sock :: "socket option"
  vm_qmp_port :: "int option"
  display_window_id :: "int option"
  aliased :: bool

text \<open>
  The host: what the library calls of the code answer. \<open>which\<close> is
  \<^verbatim>\<open>shutil.which\<close>, \<open>VMS_DIR\<close> the store root, \<open>run_qemu_img\<close> the outcome of
  running the external image tool with \<^verbatim>\<open>check=True\<close> (\<open>None\<close>: a non-zero exit),
  \<open>json_dumps\<close>, \<open>json_loads\<close> and \<open>utf8_decode\<close> the codecs, and \<open>tar_walk f p a\<close>
  the members that the recursion of \<^verbatim>\<open>tarfile\<close> adds for what lies below the directory
  \<open>p\<close>, archived under the name \<open>a\<close>, in the file system \<open>f\<close>.
\<close>

record host =
  which :: "string \<Rightarrow> string option"
  VMS_DIR :: string
  run_qemu_img :: "string list \<Rightarrow> node option"
  json_dumps :: "json \<Rightarrow> string"
  json_loads :: "string \<Rightarrow> json option"
  utf8_decode :: "string \<Rightarrow> string"
  tar_walk :: "(string \<rightharpoonup> node) \<Rightarrow> string \<Rightarrow> string \<Rightarrow> (string \<times> node) list"

text \<open>
  The mutable environment: the file system, the loopback ports the operating system hands
  out next, every argument vector spawned so far, the clock reading, and the module-level
  dictionary \<^verbatim>\<open>DEFAULT_CONFIG\<close> as it is now. A VM created from the defaults gets a
  shallow copy (\<^verbatim>\<open>dict(DEFAULT_CONFIG)\<close>): its \<^verbatim>\<open>disks\<close> list and its \<^verbatim>\<open>advanced\<close>
  dictionary are the module's own objects, so what such a VM appends or stores there
  shows in \<^verbatim>\<open>DEFAULT_CONFIG\<close> and in every VM created from it later. The field
  \<open>aliased\<close> of a VM object says that its configuration holds those shared objects.
\<close>

record world =
  fs :: "string \<rightharpoonup> node"
  next_ports :: "int list"
  spawned :: "string list list"
  clock :: string
  module_defaults :: VMConfig

datatype error =
  HypervisorNotFound
| UnsupportedFormat
| AlreadyRunning
| AlreadyExists
| NotConnected
| EmptyBundle
| ConfigCorrupt
| CalledProcessError
| InvalidArgument
| FileNotFound
| ReadError
| NoFreePort
| SocketTimeout
| OverflowError
| AttributeError
| TypeError
| NotADirectoryError

section \<open>ConfigStore and DiskManager\<close>

definition vm_path :: "host \<Rightarrow> VM \<Rightarrow> string" where
  "vm_path h vm = path_join (VMS_DIR h) (name vm)"

definition config_path :: "host \<Rightarrow> VM \<Rightarrow> string" where
  "config_path h vm = path_join (vm_path h vm) ''config.json''"

definition disk_dir :: "host \<Rightarrow> VM \<Rightarrow> string" where
  "disk_dir h vm = path_join (vm_path h vm) ''disks''"

definition logs_dir :: "host \<Rightarrow> VM \<Rightarrow> string" where
  "logs_dir h vm = path_join (vm_path h vm) ''logs''"

definition find_qemu :: "host \<Rightarrow> string option" where
  "find_qemu h =
     (if truthy_str (which h ''qemu-system-x86_64'') then which h ''qemu-system-x86_64''
      else if truthy_str (which h ''qemu-system-x86_64.exe'')
        then which h ''qemu-system-x86_64.exe''
      else None)"

definition save_config :: "host \<Rightarrow> VM \<Rightarrow> world \<Rightarrow> world" where
  "save_config h vm w = w\<lparr>fs := (fs w)(config_path h vm \<mapsto> Doc (config vm))\<rparr>"

text \<open>What a VM holding the shared objects has changed in them shows in the module.\<close>

definition share_disks :: "VM \<Rightarrow> world \<Rightarrow> world" where
  "share_disks vm w =
     (if aliased vm
      then w\<lparr>module_defaults := (module_defaults w)\<lparr>disks := disks (config vm)\<rparr>\<rparr>
      else w)"

definition share_advanced :: "VM \<Rightarrow> world \<Rightarrow> world" where
  "share_advanced vm w =
     (if aliased vm
      then w\<lparr>module_defaults := (module_defaults w)\<lparr>advanced := advanced (config vm)\<rparr>\<rparr>
      else w)"

definition get_disks :: "VMConfig \<Rightarrow> DiskSpec list" where
  "get_disks cfg = (case disks cfg of Present ds \<Rightarrow> ds | Null \<Rightarrow> [] | Absent \<Rightarrow> [])"

definition empty_advanced :: Advanced where
  "empty_advanced =
     \<lparr>qmp_port = None, vnc_port = None, machine = None, ovmf_code = None, tap_name = None\<rparr>"

definition get_advanced :: "VMConfig \<Rightarrow> Advanced" where
  "get_advanced cfg = (case advanced cfg of None \<Rightarrow> empty_advanced | Some a \<Rightarrow> a)"

text \<open>
  \<^verbatim>\<open>create_disk\<close>: the external tool is used only when it is found and the format is
  not raw; otherwise the file is opened for writing (which creates it empty) and truncated
  to \<^verbatim>\<open>gib * 1024**3\<close> bytes. A length outside the signed 64-bit range cannot be
  passed to the operating system (\<^verbatim>\<open>OverflowError\<close>), a negative one is refused by it;
  the empty file stays in both cases. Then
  \<^verbatim>\<open>self.config.setdefault("disks", []).append(...)\<close> registers the DiskSpec, which
  raises when the key holds \<^verbatim>\<open>null\<close>, and the configuration is saved.
\<close>

definition create_disk ::
  "host \<Rightarrow> string \<Rightarrow> int \<Rightarrow> string \<Rightarrow> VM \<Rightarrow> world \<Rightarrow> (error + unit) \<times> VM \<times> world" where
  "create_disk h nm gib fmt vm w =
     (let target = path_join (disk_dir h vm) nm;
          qemu_img = which h ''qemu-img'';
          made =
            (if truthy_str qemu_img \<and> fmt \<noteq> ''raw'' then
               (case run_qemu_img h
                       [the qemu_img, ''create'', ''-f'', fmt, target, str_int gib @ ''G''] of
                  None \<Rightarrow> Inl (CalledProcessError, w)
                | Some img \<Rightarrow> Inr (w\<lparr>fs := (fs w)(target \<mapsto> img)\<rparr>))
             else if gib * 1024 ^ 3 < - (2 ^ 63) \<or> 2 ^ 63 \<le> gib * 1024 ^ 3 then
               Inl (OverflowError, w\<lparr>fs := (fs w)(target \<mapsto> Sparse 0)\<rparr>)
             else if gib * 1024 ^ 3 < 0 then
               Inl (InvalidArgument, w\<lparr>fs := (fs w)(target \<mapsto> Sparse 0)\<rparr>)
             else Inr (w\<lparr>fs := (fs w)(target \<mapsto> Sparse (nat (gib * 1024 ^ 3)))\<rparr>))
      in case made of
           Inl (e, w1) \<Rightarrow> (Inl e, vm, w1)
         | Inr w1 \<Rightarrow>
             (if disks (config vm) = Null then (Inl AttributeError, vm, w1)
              else
                (let cfg = config vm;
                     vm1 = vm\<lparr>config :=
                             cfg\<lparr>disks :=
                                   Present (get_disks cfg @ [\<lparr>path = target, format = Some fmt\<rparr>])\<rparr>\<rparr>
                 in (Inr (), vm1, save_config h vm1 (share_disks vm1 w1)))))"

definition ensure_primary_disk :: "host \<Rightarrow> VM \<Rightarrow> world \<Rightarrow> (error + unit) \<times> VM \<times> world" where
  "ensure_primary_disk h vm w =
     (if get_disks (config vm) = [] then
        (let fmt = (case disk_format (config vm) of None \<Rightarrow> ''raw'' | Some f \<Rightarrow> f);
             nm = name vm @ ''-disk0.'' @ fmt;
             gib = (case disk_gib (config vm) of None \<Rightarrow> 32 | Some g \<Rightarrow> g)
         in create_disk h nm gib fmt vm w)
      else (Inr (), vm, w))"


section \<open>CommandBuilder\<close>

text \<open>Lines 156 to 173 of \<^verbatim>\<open>build_qemu_cmd\<close>: binary, machine, acceleration, CPU, memory,
  one drive per DiskSpec, install media, boot order.\<close>

definition drive_args :: "DiskSpec \<Rightarrow> string list" where
  "drive_args d =
     [''-drive'',
      ''file='' @ path d @ '',format='' @ (case format d of None \<Rightarrow> ''raw'' | Some f \<Rightarrow> f)
        @ '',if=virtio'']"

definition base_args :: "string \<Rightarrow> VMConfig \<Rightarrow> string list" where
  "base_args qemu cfg =
     [qemu]
     @ [''-machine'', (case machine (get_advanced cfg) of None \<Rightarrow> ''q35'' | Some m \<Rightarrow> m)]
     @ (if truthy_bool (enable_kvm cfg) then [''-enable-kvm''] else [])
     @ (if truthy_bool (nested_virt cfg) then [''-cpu'', ''host''] else [])
     @ [''-smp'', str_int (case cpu_cores cfg of None \<Rightarrow> 2 | Some n \<Rightarrow> n)]
     @ [''-m'', str_int (case memory_mib cfg of None \<Rightarrow> 4096 | Some n \<Rightarrow> n)]
     @ concat (map drive_args (get_disks cfg))
     @ (case iso_path cfg of
          None \<Rightarrow> []
        | Some isop \<Rightarrow> if isop \<noteq> [] then [''-cdrom'', isop] else [])
     @ [''-boot'', (case boot_order cfg of None \<Rightarrow> ''cdrom,hd,menu'' | Some b \<Rightarrow> b)]"

text \<open>
  Lines 174 to 193: the display. For \<^verbatim>\<open>vnc\<close> a port that is absent or zero is
  allocated from the operating system, stored in \<^verbatim>\<open>advanced\<close> and saved.
\<close>

definition set_vnc_port :: "int \<Rightarrow> VMConfig \<Rightarrow> VMConfig" where
  "set_vnc_port p cfg = cfg\<lparr>advanced := Some ((get_advanced cfg)\<lparr>vnc_port := Some p\<rparr>)\<rparr>"

definition set_qmp_port :: "int \<Rightarrow> VMConfig \<Rightarrow> VMConfig" where
  "set_qmp_port p cfg = cfg\<lparr>advanced := Some ((get_advanced cfg)\<lparr>qmp_port := Some p\<rparr>)\<rparr>"

definition display_args ::
  "host \<Rightarrow> int option \<Rightarrow> VM \<Rightarrow> world \<Rightarrow> (error + string list) \<times> VM \<times> world" where
  "display_args h embed_window_id vm w =
     (let cfg = config vm;
          g = (case graphics cfg of None \<Rightarrow> ''sdl'' | Some x \<Rightarrow> x);
          display_embed_on = (case display_embed cfg of None \<Rightarrow> True | Some b \<Rightarrow> b)
      in if g = ''none'' then (Inr [''-nographic''], vm, w)
         else if g = ''sdl'' then
           (case embed_window_id of
              None \<Rightarrow> (Inr [''-display'', ''sdl''], vm, w)
            | Some wid \<Rightarrow>
                if display_embed_on \<and> wid \<noteq> 0
                then (Inr [''-display'', ''sdl,window-id='' @ str_int wid], vm, w)
                else (Inr [''-display'', ''sdl''], vm, w))
         else if g = ''gtk'' then (Inr [''-display'', ''gtk''], vm, w)
         else if g = ''vnc'' then
           (case vnc_port (get_advanced cfg) of
              Some p \<Rightarrow>
                if p \<noteq> 0 then (Inr [''-vnc'', ''127.0.0.1:'' @ str_int (p - 5900)], vm, w)
                else
                  (case next_ports w of
                     [] \<Rightarrow> (Inl NoFreePort, vm, w)
                   | q # qs \<Rightarrow>
                       (let vm1 = vm\<lparr>config := set_vnc_port q cfg\<rparr>
                        in (Inr [''-vnc'', ''127.0.0.1:'' @ str_int (q - 5900)], vm1,
                            save_config h vm1 (share_advanced vm1 (w\<lparr>next_ports := qs\<rparr>)))))
            | None \<Rightarrow>
                (case next_ports w of
                   [] \<Rightarrow> (Inl NoFreePort, vm, w)
                 | q # qs \<Rightarrow>
                     (let vm1 = vm\<lparr>config := set_vnc_port q cfg\<rparr>
                      in (Inr [''-vnc'', ''127.0.0.1:'' @ str_int (q - 5900)], vm1,
                          save_config h vm1 (share_advanced vm1 (w\<lparr>next_ports := qs\<rparr>))))))
         else (Inr [''-display'', g], vm, w))"

text \<open>Lines 194 to 203: the network device.\<close>

definition network_args :: "VMConfig \<Rightarrow> string list" where
  "network_args cfg =
     (let nm = (case network_mode cfg of None \<Rightarrow> ''user (NAT)'' | Some x \<Rightarrow> x)
      in if startswith nm ''user'' then
           [''-netdev'', ''user,id=net0'', ''-device'', ''virtio-net-pci,netdev=net0'']
         else if nm = ''bridge'' then
           [''-netdev'',
            ''tap,id=net0,ifname=''
              @ (case tap_name (get_advanced cfg) of None \<Rightarrow> ''tap0'' | Some t \<Rightarrow> t)
              @ '',script=no,downscript=no'',
            ''-device'', ''virtio-net-pci,netdev=net0'']
         else if nm = ''host-only'' then
           [''-netdev'', ''user,id=net0,restrict=on'', ''-device'', ''virtio-net-pci,netdev=net0'']
         else [''-net'', ''none''])"

text \<open>\<^verbatim>\<open>_allocate_qmp_port\<close>: a free loopback port, stored and saved.\<close>

definition allocate_qmp_port :: "host \<Rightarrow> VM \<Rightarrow> world \<Rightarrow> (error + int) \<times> VM \<times> world" where
  "allocate_qmp_port h vm w =
     (case next_ports w of
        [] \<Rightarrow> (Inl NoFreePort, vm, w)
      | q # qs \<Rightarrow>
          (let vm1 = vm\<lparr>config := set_qmp_port q (config vm)\<rparr>
           in (Inr q, vm1, save_config h vm1 (share_advanced vm1 (w\<lparr>next_ports := qs\<rparr>)))))"

text \<open>Lines 204 to 207: the control port, reused when present and not zero.\<close>

definition control_port :: "host \<Rightarrow> VM \<Rightarrow> world \<Rightarrow> (error + int) \<times> VM \<times> world" where
  "control_port h vm w =
     (case qmp_port (get_advanced (config vm)) of
        None \<Rightarrow> allocate_qmp_port h vm w
      | Some p \<Rightarrow> if p \<noteq> 0 then (Inr p, vm, w) else allocate_qmp_port h vm w)"

text \<open>Lines 208 to 216: firmware, extra arguments, log file.\<close>

definition tail_args :: "host \<Rightarrow> VM \<Rightarrow> string list" where
  "tail_args h vm =
     (let cfg = config vm
      in (if truthy_bool (efi cfg) then
            (case ovmf_code (get_advanced cfg) of
               None \<Rightarrow> []
             | Some c \<Rightarrow> if c \<noteq> [] then [''-bios'', c] else [])
          else [])
         @ (case extra_args cfg of
              None \<Rightarrow> []
            | Some extra \<Rightarrow> if extra \<noteq> [] then py_split extra else [])
         @ [''-D'', path_join (logs_dir h vm) (name vm @ ''.log'')])"

definition build_qemu_cmd ::
  "host \<Rightarrow> int option \<Rightarrow> VM \<Rightarrow> world \<Rightarrow> (error + string list) \<times> VM \<times> world" where
  "build_qemu_cmd h embed_window_id vm w =
     (case find_qemu h of
        None \<Rightarrow> (Inl HypervisorNotFound, vm, w)
      | Some qemu \<Rightarrow>
          (case ensure_primary_disk h vm w of
             (Inl e, vm1, w1) \<Rightarrow> (Inl e, vm1, w1)
           | (Inr u, vm1, w1) \<Rightarrow>
               if disks (config vm1) = Null then (Inl TypeError, vm1, w1)
               else
               (case display_args h embed_window_id vm1 w1 of
                  (Inl e, vm2, w2) \<Rightarrow> (Inl e, vm2, w2)
                | (Inr dargs, vm2, w2) \<Rightarrow>
                    (case control_port h vm2 w2 of
                       (Inl e, vm3, w3) \<Rightarrow> (Inl e, vm3, w3)
                     | (Inr p, vm3, w3) \<Rightarrow>
                         (Inr (base_args qemu (config vm1) @ dargs @ network_args (config vm2)
                               @ [''-qmp'', ''tcp:127.0.0.1:'' @ str_int p @ '',server,nowait'']
                               @ tail_args h vm3),
                          vm3, w3)))))"

section \<open>ProcessSupervisor\<close>

text \<open>
  \<^verbatim>\<open>start\<close> up to the spawn of the child: the guard on a live handle, the command, the
  new handle, the recorded control port. The reader, waiter and connector threads it
  launches afterwards are not part of the model.
\<close>

definition start :: "host \<Rightarrow> int option \<Rightarrow> VM \<Rightarrow> world \<Rightarrow> (error + unit) \<times> VM \<times> world" where
  "start h embed_window_id vm w =
     (if (case proc vm of None \<Rightarrow> False | Some p \<Rightarrow> returncode p = None)
      then (Inl AlreadyRunning, vm, w)
      else
        (case build_qemu_cmd h embed_window_id vm w of
           (Inl e, vm1, w1) \<Rightarrow> (Inl e, vm1, w1)
         | (Inr cmd, vm1, w1) \<Rightarrow>
             (Inr (),
              vm1\<lparr>proc := Some \<lparr>args = cmd, returncode = None\<rparr>,
                  vm_qmp_port := qmp_port (get_advanced (config vm1))\<rparr>,
              w1\<lparr>spawned := spawned w1 @ [cmd]\<rparr>)))"

section \<open>ControlProtocolClient\<close>

text \<open>
  \<^verbatim>\<open>qmp_command\<close>: without a socket it raises; otherwise one \<^verbatim>\<open>sendall\<close> of the
  encoded command and a newline, one \<^verbatim>\<open>recv\<close> (the socket has a timeout, so an empty
  queue raises), then \<^verbatim>\<open>json.loads\<close> with every failure caught.
\<close>

definition qmp_command :: "host \<Rightarrow> json \<Rightarrow> VM \<Rightarrow> (error + json) \<times> VM" where
  "qmp_command h cmd_obj vm =
     (case qmp_sock vm of
        None \<Rightarrow> (Inl NotConnected, vm)
      | Some s \<Rightarrow>
          (let data = json_dumps h cmd_obj @ [CHR 0x0A];
               s1 = s\<lparr>sent := sent s @ [data]\<rparr>
           in case pending s1 of
                [] \<Rightarrow> (Inl SocketTimeout, vm\<lparr>qmp_sock := Some (s1\<lparr>errored := True\<rparr>)\<rparr>)
              | r # rs \<Rightarrow>
                  (let resp = utf8_decode h r;
                       vm1 = vm\<lparr>qmp_sock := Some (s1\<lparr>pending := rs\<rparr>)\<rparr>
                   in case json_loads h resp of
                        Some j \<Rightarrow> (Inr j, vm1)
                      | None \<Rightarrow> (Inr (JObj [(''raw'', JStr resp)]), vm1))))"

text \<open>
  Modelled from the spec: the state \<^verbatim>\<open>Ready\<close> of the protocol client, which the code
  does not have. The spec's client goes
  \<^verbatim>\<open>Disconnected -> Connecting -> Handshaking -> Ready\<close>, ``collapsing back to
  \<^verbatim>\<open>Disconnected\<close> on any socket error''. So a client is Ready when the handshake has
  stored a socket and no call on that socket has raised since.
\<close>

definition spec_ready :: "VM \<Rightarrow> bool" where
  "spec_ready vm = (case qmp_sock vm of None \<Rightarrow> False | Some s \<Rightarrow> \<not> errored s)"

section \<open>BundleCodec\<close>





text \<open>
  \<^verbatim>\<open>VM.__init__\<close> with \<^verbatim>\<open>_load_or_init\<close> and \<^verbatim>\<open>_ensure_disks_list\<close>: the layout is
  created where missing (below a regular file \<^verbatim>\<open>mkdir\<close> raises), the document is read,
  or a shallow copy of the module's defaults is written on first access.
  \<open>DEFAULT_CONFIG\<close> below is the module's dictionary as the source text gives it.
\<close>

definition DEFAULT_CONFIG :: VMConfig where
  "DEFAULT_CONFIG =
     \<lparr>cfg_name = Some ''py86-vm'', created = None, version = Some ''beta 0.12'',
      cpu_cores = Some 2, memory_mib = Some 4096, disk_gib = Some 32,
      disk_format = Some ''raw'', efi = Some True, boot_order = Some ''cdrom,hd,menu'',
      iso_path = None, extra_args = Some [], network_mode = Some ''user (NAT)'',
      enable_kvm = Some False, graphics = Some ''sdl'', display_embed = Some True,
      advanced = Some empty_advanced, disks = Present [], usb_passthrough = Some [],
      nested_virt = Some False, autostart = Some False, vga = Some ''virtio''\<rparr>"

definition mkdir_missing :: "string \<Rightarrow> world \<Rightarrow> world" where
  "mkdir_missing p w = (if fs w p = None then w\<lparr>fs := (fs w)(p \<mapsto> Dir)\<rparr> else w)"

definition ensure_disks_list :: "host \<Rightarrow> VM \<Rightarrow> world \<Rightarrow> VM \<times> world" where
  "ensure_disks_list h vm w =
     (if disks (config vm) = Absent then
        (let vm1 = vm\<lparr>config := (config vm)\<lparr>disks := Present []\<rparr>\<rparr>
         in (vm1, save_config h vm1 w))
      else (vm, w))"

definition new_VM :: "string \<Rightarrow> VMConfig \<Rightarrow> VM" where
  "new_VM nm cfg =
     \<lparr>name = nm, config = cfg, proc = None, qmp_sock = None, vm_qmp_port = None,
      display_window_id = None, aliased = False\<rparr>"

definition VM_init :: "host \<Rightarrow> string \<Rightarrow> world \<Rightarrow> (error + VM) \<times> world" where
  "VM_init h nm w =
     (let vm0 = new_VM nm DEFAULT_CONFIG;
          w0 = mkdir_missing (vm_path h vm0) w
      in if fs w0 (vm_path h vm0) \<noteq> Some Dir then (Inl NotADirectoryError, w0)
         else
           (let w1 = mkdir_missing (logs_dir h vm0) (mkdir_missing (disk_dir h vm0) w0)
            in case fs w1 (config_path h vm0) of
                 Some (Doc cfg) \<Rightarrow>
                   (case ensure_disks_list h (new_VM nm cfg) w1 of (vm, w2) \<Rightarrow> (Inr vm, w2))
               | Some other \<Rightarrow> (Inl ConfigCorrupt, w1)
               | None \<Rightarrow>
                   (let vm1 = (new_VM nm ((module_defaults w1)
                                 \<lparr>cfg_name := Some nm, created := Some (clock w1)\<rparr>))
                                \<lparr>aliased := True\<rparr>
                    in case ensure_disks_list h vm1 (save_config h vm1 w1) of
                         (vm, w2) \<Rightarrow> (Inr vm, w2))))"





section \<open>Sample hosts and machines\<close>

definition bare_host :: host where
  "bare_host =
     \<lparr>which = (\<lambda>c. None), VMS_DIR = ''/home/u/.py86/vms'',
      run_qemu_img = (\<lambda>argv. None), json_dumps = (\<lambda>j. ''{}''),
      json_loads = (\<lambda>s. if s = ''{}'' then Some (JObj []) else None),
      utf8_decode = (\<lambda>s. s), tar_walk = (\<lambda>f p a. [])\<rparr>"

definition qemu_host :: host where
  "qemu_host =
     bare_host\<lparr>which := (\<lambda>c. if c = ''qemu-system-x86_64''
                                then Some ''/usr/bin/qemu-system-x86_64'' else None)\<rparr>"

definition web01 :: VM where
  "web01 = new_VM ''web01'' (DEFAULT_CONFIG\<lparr>cfg_name := Some ''web01''\<rparr>)"

definition empty_world :: world where
  "empty_world =
     \<lparr>fs = Map.empty, next_ports = [40001, 40002], spawned = [],
      clock = ''2024-01-01T00:00:00Z'', module_defaults = DEFAULT_CONFIG\<rparr>"

text \<open>
  The branch \<^verbatim>\<open>create_disk\<close> takes, and the sizes the truncation accepts: those whose
  byte count \<open>gib * 2 ^ 30\<close> is a non-negative signed 64-bit file offset.
\<close>

definition uses_tool :: "host \<Rightarrow> string \<Rightarrow> bool" where
  "uses_tool h fmt = (truthy_str (which h ''qemu-img'') \<and> fmt \<noteq> ''raw'')"

definition fits_offset :: "int \<Rightarrow> bool" where
  "fits_offset gib = (0 \<le> gib \<and> gib < 2 ^ 33)"






text \<open>
  The ports of a configuration are allocated when the control port is stored and not zero
  and, for \<^verbatim>\<open>vnc\<close> graphics, the display port too. Zero is what the code's truth test
  treats as absent; the operating system never hands it out.
\<close>

definition ports_allocated :: "VMConfig \<Rightarrow> bool" where
  "ports_allocated cfg =
     (truthy_int (qmp_port (get_advanced cfg))
      \<and> (graphics cfg = Some ''vnc'' \<longrightarrow> truthy_int (vnc_port (get_advanced cfg))))"

text \<open>The VM object after \<^verbatim>\<open>create_disk\<close> has appended the DiskSpec of a new disk.\<close>

definition registered :: "host \<Rightarrow> string \<Rightarrow> string \<Rightarrow> VM \<Rightarrow> VM" where
  "registered h nm fmt vm =
     vm\<lparr>config := (config vm)\<lparr>disks :=
        Present (get_disks (config vm) @ [\<lparr>path = path_join (disk_dir h vm) nm, format = Some fmt\<rparr>])\<rparr>\<rparr>"

definition web01_vnc :: VM where
  "web01_vnc =
     new_VM ''web01''
       (DEFAULT_CONFIG\<lparr>cfg_name := Some ''web01'', graphics := Some ''vnc'',
          advanced := Some (empty_advanced\<lparr>qmp_port := Some 4444, vnc_port := Some 5901\<rparr>),
          disks := Present [\<lparr>path = ''/home/u/.py86/vms/web01/disks/web01-disk0.raw'',
                           format = Some ''raw''\<rparr>]\<rparr>)"

definition ready_vm :: VM where
  "ready_vm =
     web01\<lparr>qmp_sock := Some \<lparr>sent = [], pending = [''{}'', ''garbage''], errored = False\<rparr>\<rparr>"

definition idle_vm :: VM where
  "idle_vm = web01\<lparr>qmp_sock := Some \<lparr>sent = [], pending = [], errored = False\<rparr>\<rparr>"

definition timed_out_vm :: VM where
  "timed_out_vm =
     web01\<lparr>qmp_sock := Some \<lparr>sent = [''{}'' @ [CHR 0x0A]], pending = [], errored = True\<rparr>\<rparr>"

definition late_reply_vm :: VM where
  "late_reply_vm =
     web01\<lparr>qmp_sock := Some \<lparr>sent = [''{}'' @ [CHR 0x0A]], pending = [''{}''], errored = True\<rparr>\<rparr>"





section \<open>Evaluation rules\<close>

lemmas model_defs =
  build_qemu_cmd_def find_qemu_def truthy_str_def truthy_bool_def
  ensure_primary_disk_def get_disks_def create_disk_def
  Let_def disk_dir_def vm_path_def logs_dir_def config_path_def path_join_def path_parts_def
  save_config_def share_disks_def share_advanced_def
  display_args_def control_port_def get_advanced_def empty_advanced_def
  allocate_qmp_port_def set_qmp_port_def set_vnc_port_def base_args_def network_args_def
  tail_args_def startswith_def drive_args_def str_int_def str_nat.simps

lemmas sample_defs =
  qemu_host_def bare_host_def web01_def new_VM_def DEFAULT_CONFIG_def empty_world_def

lemma find_qemu_None_iff:
  "find_qemu h = None \<longleftrightarrow>
     \<not> truthy_str (which h ''qemu-system-x86_64'')
     \<and> \<not> truthy_str (which h ''qemu-system-x86_64.exe'')"
  by (auto simp: find_qemu_def truthy_str_def split: option.splits)

section \<open>C2: an unresolved hypervisor binary aborts the build first\<close>

text \<open>
  Claim C2. When neither candidate name of the hypervisor binary resolves on the search
  path (\<open>find_qemu\<close> returns nothing), \<open>build_qemu_cmd\<close> fails with
  \<open>HypervisorNotFound\<close> and nothing else has happened: the VM object (its configuration
  and its disks list) and the environment (file system with the persisted document, port
  supply, spawned processes) are returned as they were.
\<close>

theorem build_hypervisor_not_found:
  assumes "find_qemu h = None"
  shows "build_qemu_cmd h embed_window_id vm w = (Inl HypervisorNotFound, vm, w)"
  using assms by (simp add: build_qemu_cmd_def)

theorem build_hypervisor_not_found_witness:
  "find_qemu bare_host = None
   \<and> build_qemu_cmd bare_host None web01 empty_world
       = (Inl HypervisorNotFound, web01, empty_world)"
  using build_hypervisor_not_found [of bare_host None web01 empty_world]
  by (simp add: find_qemu_def bare_host_def truthy_str_def)

section \<open>C3: a live process handle blocks a second start\<close>

text \<open>
  Claim C3. When the VM holds a process handle whose \<^verbatim>\<open>poll()\<close> still returns
  \<^verbatim>\<open>None\<close>, \<open>start\<close> fails with \<open>AlreadyRunning\<close>; the VM object (handle and
  configuration) and the environment (in particular the list of spawned processes) are
  unchanged.
\<close>

theorem start_already_running:
  assumes "proc vm = Some p" and "returncode p = None"
  shows "start h embed_window_id vm w = (Inl AlreadyRunning, vm, w)"
  using assms by (simp add: start_def)

theorem start_already_running_witness:
  "proc (web01\<lparr>proc := Some \<lparr>args = [''qemu''], returncode = None\<rparr>\<rparr>)
     = Some \<lparr>args = [''qemu''], returncode = None\<rparr>
   \<and> returncode \<lparr>args = [''qemu''], returncode = None\<rparr> = None
   \<and> start qemu_host None (web01\<lparr>proc := Some \<lparr>args = [''qemu''], returncode = None\<rparr>\<rparr>)
         empty_world
       = (Inl AlreadyRunning, web01\<lparr>proc := Some \<lparr>args = [''qemu''], returncode = None\<rparr>\<rparr>,
          empty_world)"
  using start_already_running
    [of "web01\<lparr>proc := Some \<lparr>args = [''qemu''], returncode = None\<rparr>\<rparr>"
        "\<lparr>args = [''qemu''], returncode = None\<rparr>" qemu_host None empty_world]
  by simp


section \<open>The outcomes of create_disk\<close>

lemma size_bounds:
  fixes gib :: int
  shows "(gib * 1024 ^ 3 < - (2 ^ 63)) = (gib < - (2 ^ 33))"
    and "(2 ^ 63 \<le> gib * 1024 ^ 3) = (2 ^ 33 \<le> gib)"
    and "(gib * 1024 ^ 3 < 0) = (gib < 0)"
  by auto

lemma create_disk_tool_fails:
  assumes "uses_tool h fmt"
    and "run_qemu_img h [the (which h ''qemu-img''), ''create'', ''-f'', fmt,
           path_join (disk_dir h vm) nm, str_int gib @ ''G''] = None"
  shows "create_disk h nm gib fmt vm w = (Inl CalledProcessError, vm, w)"
  using assms by (simp add: create_disk_def Let_def uses_tool_def)

lemma create_disk_tool_ok:
  assumes "uses_tool h fmt"
    and "run_qemu_img h [the (which h ''qemu-img''), ''create'', ''-f'', fmt,
           path_join (disk_dir h vm) nm, str_int gib @ ''G''] = Some img"
    and "disks (config vm) \<noteq> Null"
  shows "create_disk h nm gib fmt vm w =
           (Inr (), registered h nm fmt vm,
            save_config h (registered h nm fmt vm)
              (share_disks (registered h nm fmt vm)
                 (w\<lparr>fs := (fs w)(path_join (disk_dir h vm) nm \<mapsto> img)\<rparr>)))"
  using assms by (simp add: create_disk_def Let_def registered_def uses_tool_def)

lemma create_disk_tool_null:
  assumes "uses_tool h fmt"
    and "run_qemu_img h [the (which h ''qemu-img''), ''create'', ''-f'', fmt,
           path_join (disk_dir h vm) nm, str_int gib @ ''G''] = Some img"
    and "disks (config vm) = Null"
  shows "create_disk h nm gib fmt vm w =
           (Inl AttributeError, vm, w\<lparr>fs := (fs w)(path_join (disk_dir h vm) nm \<mapsto> img)\<rparr>)"
  using assms by (simp add: create_disk_def Let_def uses_tool_def)

lemma create_disk_raw_overflow:
  assumes "\<not> uses_tool h fmt" and "gib < - (2 ^ 33) \<or> 2 ^ 33 \<le> gib"
  shows "create_disk h nm gib fmt vm w =
           (Inl OverflowError, vm, w\<lparr>fs := (fs w)(path_join (disk_dir h vm) nm \<mapsto> Sparse 0)\<rparr>)"
proof -
  from assms(2) have "gib * 1024 ^ 3 < - (2 ^ 63) \<or> 2 ^ 63 \<le> gib * 1024 ^ 3"
    unfolding size_bounds .
  with assms(1) show ?thesis
    unfolding create_disk_def Let_def uses_tool_def by (simp only: if_False if_True sum.case prod.case)
qed


lemma create_disk_raw_negative:
  assumes "\<not> uses_tool h fmt" and "- (2 ^ 33) \<le> gib" and "gib < 0"
  shows "create_disk h nm gib fmt vm w =
           (Inl InvalidArgument, vm, w\<lparr>fs := (fs w)(path_join (disk_dir h vm) nm \<mapsto> Sparse 0)\<rparr>)"
proof -
  from assms(2,3) have "\<not> (gib * 1024 ^ 3 < - (2 ^ 63) \<or> 2 ^ 63 \<le> gib * 1024 ^ 3)"
    and "gib * 1024 ^ 3 < 0"
    unfolding size_bounds by simp_all
  with assms(1) show ?thesis
    unfolding create_disk_def Let_def uses_tool_def by (simp only: if_False if_True sum.case prod.case)
qed

lemma create_disk_raw_ok:
  assumes "\<not> uses_tool h fmt" and "fits_offset gib" and "disks (config vm) \<noteq> Null"
  shows "create_disk h nm gib fmt vm w =
           (Inr (), registered h nm fmt vm,
            save_config h (registered h nm fmt vm)
              (share_disks (registered h nm fmt vm)
                 (w\<lparr>fs := (fs w)(path_join (disk_dir h vm) nm \<mapsto> Sparse (nat (gib * 2 ^ 30)))\<rparr>)))"
proof -
  from assms(2) have "\<not> (gib * 1024 ^ 3 < - (2 ^ 63) \<or> 2 ^ 63 \<le> gib * 1024 ^ 3)"
    and "\<not> gib * 1024 ^ 3 < 0"
    unfolding size_bounds fits_offset_def by simp_all
  moreover have "(1024::int) ^ 3 = 2 ^ 30" by simp
  ultimately show ?thesis
    using assms(1,3)
    unfolding create_disk_def Let_def uses_tool_def registered_def
    by (simp only: if_False if_True sum.case prod.case)
qed

lemma create_disk_raw_null:
  assumes "\<not> uses_tool h fmt" and "fits_offset gib" and "disks (config vm) = Null"
  shows "create_disk h nm gib fmt vm w =
           (Inl AttributeError, vm,
            w\<lparr>fs := (fs w)(path_join (disk_dir h vm) nm \<mapsto> Sparse (nat (gib * 2 ^ 30)))\<rparr>)"
proof -
  from assms(2) have "\<not> (gib * 1024 ^ 3 < - (2 ^ 63) \<or> 2 ^ 63 \<le> gib * 1024 ^ 3)"
    and "\<not> gib * 1024 ^ 3 < 0"
    unfolding size_bounds fits_offset_def by simp_all
  moreover have "(1024::int) ^ 3 = 2 ^ 30" by simp
  ultimately show ?thesis
    using assms(1,3)
    unfolding create_disk_def Let_def uses_tool_def
    by (simp only: if_False if_True sum.case prod.case simp_thms)
qed

lemma create_disk_cases [consumes 0, case_names failed registered]:
  obtains e f where "\<forall>w. create_disk h nm gib fmt vm w = (Inl e, vm, w\<lparr>fs := f w\<rparr>)"
  | f where "disks (config vm) \<noteq> Null"
      and "\<forall>w. create_disk h nm gib fmt vm w =
             (Inr (), registered h nm fmt vm,
              save_config h (registered h nm fmt vm)
                (share_disks (registered h nm fmt vm) (w\<lparr>fs := f w\<rparr>)))"
      and "\<forall>w. f w (path_join (disk_dir h vm) nm) \<noteq> None"
proof (cases "uses_tool h fmt")
  case True
  show ?thesis
  proof (cases "run_qemu_img h [the (which h ''qemu-img''), ''create'', ''-f'', fmt,
           path_join (disk_dir h vm) nm, str_int gib @ ''G'']")
    case None
    have "\<forall>w. create_disk h nm gib fmt vm w = (Inl CalledProcessError, vm, w\<lparr>fs := fs w\<rparr>)"
      using create_disk_tool_fails [OF True None] by simp
    then show ?thesis by (rule that(1))
  next
    case (Some img)
    show ?thesis
    proof (cases "disks (config vm) = Null")
      case n: True
      have "\<forall>w. create_disk h nm gib fmt vm w =
               (Inl AttributeError, vm,
                w\<lparr>fs := (\<lambda>w. (fs w)(path_join (disk_dir h vm) nm \<mapsto> img)) w\<rparr>)"
        using create_disk_tool_null [OF True Some n] by simp
      then show ?thesis by (rule that(1))
    next
      case nn: False
      show ?thesis
        by (rule that(2) [where f = "\<lambda>w. (fs w)(path_join (disk_dir h vm) nm \<mapsto> img)"])
           (use nn create_disk_tool_ok [OF True Some nn] in simp_all)
    qed
  qed
next
  case False
  show ?thesis
  proof (cases "fits_offset gib")
    case fit: True
    show ?thesis
    proof (cases "disks (config vm) = Null")
      case n: True
      have "\<forall>w. create_disk h nm gib fmt vm w =
               (Inl AttributeError, vm,
                w\<lparr>fs := (\<lambda>w. (fs w)(path_join (disk_dir h vm) nm \<mapsto> Sparse (nat (gib * 2 ^ 30)))) w\<rparr>)"
        using create_disk_raw_null [OF False fit n] by simp
      then show ?thesis by (rule that(1))
    next
      case nn: False
      show ?thesis
        by (rule that(2) [where f = "\<lambda>w. (fs w)(path_join (disk_dir h vm) nm \<mapsto> Sparse (nat (gib * 2 ^ 30)))"])
           (use nn create_disk_raw_ok [OF False fit nn] in simp_all)
    qed
  next
    case nofit: False
    show ?thesis
    proof (cases "gib < 0 \<and> - (2 ^ 33) \<le> gib")
      case True
      have "\<forall>w. create_disk h nm gib fmt vm w =
               (Inl InvalidArgument, vm,
                w\<lparr>fs := (\<lambda>w. (fs w)(path_join (disk_dir h vm) nm \<mapsto> Sparse 0)) w\<rparr>)"
        using create_disk_raw_negative [OF False] True by simp
      then show ?thesis by (rule that(1))
    next
      case f2: False
      with nofit have "gib < - (2 ^ 33) \<or> 2 ^ 33 \<le> gib"
        by (auto simp: fits_offset_def)
      then have "\<forall>w. create_disk h nm gib fmt vm w =
               (Inl OverflowError, vm,
                w\<lparr>fs := (\<lambda>w. (fs w)(path_join (disk_dir h vm) nm \<mapsto> Sparse 0)) w\<rparr>)"
        using create_disk_raw_overflow [OF False] by simp
      then show ?thesis by (rule that(1))
    qed
  qed
qed


section \<open>What ensure_primary_disk leaves unchanged\<close>

lemma registered_frame:
  "name (registered h nm fmt vm) = name vm
   \<and> aliased (registered h nm fmt vm) = aliased vm
   \<and> advanced (config (registered h nm fmt vm)) = advanced (config vm)
   \<and> graphics (config (registered h nm fmt vm)) = graphics (config vm)
   \<and> get_advanced (config (registered h nm fmt vm)) = get_advanced (config vm)
   \<and> get_disks (config (registered h nm fmt vm)) \<noteq> []
   \<and> disks (config (registered h nm fmt vm)) \<noteq> Null"
  by (simp add: registered_def get_advanced_def get_disks_def)

lemma save_share_frame:
  "next_ports (save_config h vm (share_disks vm' w)) = next_ports w
   \<and> spawned (save_config h vm (share_disks vm' w)) = spawned w
   \<and> clock (save_config h vm (share_disks vm' w)) = clock w"
  by (simp add: save_config_def share_disks_def)


lemma create_disk_frame:
  "(fst (snd (create_disk h nm gib fmt vm w)) = vm
    \<or> fst (create_disk h nm gib fmt vm w) = Inr ()
       \<and> fst (snd (create_disk h nm gib fmt vm w)) = registered h nm fmt vm)
   \<and> next_ports (snd (snd (create_disk h nm gib fmt vm w))) = next_ports w
   \<and> spawned (snd (snd (create_disk h nm gib fmt vm w))) = spawned w"
  by (cases rule: create_disk_cases [of h nm gib fmt vm]) (simp_all add: save_share_frame)

lemma create_disk_success:
  assumes "create_disk h nm gib fmt vm w = (Inr u, vm1, w1)"
  shows "vm1 = registered h nm fmt vm \<and> disks (config vm) \<noteq> Null"
  using assms by (cases rule: create_disk_cases [of h nm gib fmt vm]) simp_all


lemma ensure_primary_disk_frame:
  assumes "ensure_primary_disk h vm w = (r, vm1, w1)"
  shows "name vm1 = name vm \<and> advanced (config vm1) = advanced (config vm)
         \<and> graphics (config vm1) = graphics (config vm)
         \<and> get_advanced (config vm1) = get_advanced (config vm)
         \<and> next_ports w1 = next_ports w \<and> spawned w1 = spawned w"
proof (cases "get_disks (config vm) = []")
  case False
  with assms show ?thesis by (simp add: ensure_primary_disk_def)
next
  case True
  define fmt where "fmt = (case disk_format (config vm) of None \<Rightarrow> ''raw'' | Some f \<Rightarrow> f)"
  define gib where "gib = (case disk_gib (config vm) of None \<Rightarrow> (32::int) | Some g \<Rightarrow> g)"
  from True assms have c: "create_disk h (name vm @ ''-disk0.'' @ fmt) gib fmt vm w = (r, vm1, w1)"
    by (simp add: ensure_primary_disk_def Let_def fmt_def gib_def)
  from create_disk_frame [of h "name vm @ ''-disk0.'' @ fmt" gib fmt vm w] c
  have "(vm1 = vm \<or> vm1 = registered h (name vm @ ''-disk0.'' @ fmt) fmt vm)
        \<and> next_ports w1 = next_ports w \<and> spawned w1 = spawned w"
    by auto
  then show ?thesis using registered_frame by auto
qed

lemma ensure_primary_disk_after:
  assumes "ensure_primary_disk h vm w = (Inr u, vm1, w1)"
  shows "get_disks (config vm1) \<noteq> [] \<and> disks (config vm1) \<noteq> Null"
proof (cases "get_disks (config vm) = []")
  case False
  with assms have "vm1 = vm" by (auto simp: ensure_primary_disk_def)
  with False show ?thesis by (auto simp: get_disks_def)
next
  case True
  define fmt where "fmt = (case disk_format (config vm) of None \<Rightarrow> ''raw'' | Some f \<Rightarrow> f)"
  define gib where "gib = (case disk_gib (config vm) of None \<Rightarrow> (32::int) | Some g \<Rightarrow> g)"
  from True assms have c: "create_disk h (name vm @ ''-disk0.'' @ fmt) gib fmt vm w = (Inr u, vm1, w1)"
    by (simp add: ensure_primary_disk_def Let_def fmt_def gib_def)
  from create_disk_success [OF c] show ?thesis using registered_frame by simp
qed


section \<open>When create_disk succeeds and what it leaves\<close>




section \<open>The build steps when the ports are allocated\<close>

lemma display_args_not_vnc:
  assumes "graphics (config vm) \<noteq> Some ''vnc''"
  shows "display_args h e vm w = (fst (display_args h e vm w'), vm, w)"
  using assms
  by (cases "graphics (config vm)"; cases e; simp add: display_args_def Let_def)

lemma display_args_vnc:
  assumes "graphics (config vm) = Some ''vnc''"
    and "vnc_port (get_advanced (config vm)) = Some p" and "p \<noteq> 0"
  shows "display_args h e vm w = (Inr [''-vnc'', ''127.0.0.1:'' @ str_int (p - 5900)], vm, w)"
  using assms by (simp add: display_args_def Let_def)

lemma control_port_allocated:
  assumes "qmp_port (get_advanced (config vm)) = Some p" and "p \<noteq> 0"
  shows "control_port h vm w = (Inr p, vm, w)"
  using assms by (simp add: control_port_def)

lemma control_port_zero:
  assumes "qmp_port (get_advanced (config vm)) = Some 0"
  shows "control_port h vm w = allocate_qmp_port h vm w"
  using assms by (simp add: control_port_def)

lemma display_args_fixed:
  assumes "ports_allocated (config vm)"
  shows "\<exists>X. \<forall>w. display_args h e vm w = (X, vm, w)"
proof (cases "graphics (config vm) = Some ''vnc''")
  case True
  with assms obtain p where "vnc_port (get_advanced (config vm)) = Some p" and "p \<noteq> 0"
    by (auto simp: ports_allocated_def truthy_int_def split: option.splits)
  with True show ?thesis using display_args_vnc by blast
next
  case False
  then have "\<forall>w. display_args h e vm w = (fst (display_args h e vm undefined), vm, w)"
    using display_args_not_vnc by blast
  then show ?thesis by blast
qed

lemma control_port_fixed:
  assumes "ports_allocated (config vm)"
  shows "\<exists>p. qmp_port (get_advanced (config vm)) = Some p \<and> p \<noteq> 0
             \<and> (\<forall>w. control_port h vm w = (Inr p, vm, w))"
proof -
  from assms obtain p where "qmp_port (get_advanced (config vm)) = Some p" and "p \<noteq> 0"
    by (auto simp: ports_allocated_def truthy_int_def split: option.splits)
  then show ?thesis using control_port_allocated by blast
qed

lemma ports_allocated_frame:
  assumes "ensure_primary_disk h vm w = (r, vm1, w1)" and "ports_allocated (config vm)"
  shows "ports_allocated (config vm1)"
  using ensure_primary_disk_frame [OF assms(1)] assms(2) by (simp add: ports_allocated_def)

lemma build_ensure_fails:
  assumes "find_qemu h = Some q" and "ensure_primary_disk h vm w = (Inl er, vm1, w1)"
  shows "build_qemu_cmd h e vm w = (Inl er, vm1, w1)"
  using assms by (simp add: build_qemu_cmd_def)

lemma build_after_ensure:
  assumes "find_qemu h = Some q" and "ensure_primary_disk h vm w = (Inr u, vm1, w1)"
    and "disks (config vm1) \<noteq> Null"
    and "\<forall>w. display_args h e vm1 w = (X, vm1, w)"
    and "\<forall>w. control_port h vm1 w = (Inr p, vm1, w)"
  shows "build_qemu_cmd h e vm w =
           (case X of
              Inl er \<Rightarrow> (Inl er, vm1, w1)
            | Inr dargs \<Rightarrow>
                (Inr (base_args q (config vm1) @ dargs @ network_args (config vm1)
                      @ [''-qmp'', ''tcp:127.0.0.1:'' @ str_int p @ '',server,nowait'']
                      @ tail_args h vm1),
                 vm1, w1))"
  using assms by (cases X) (simp_all add: build_qemu_cmd_def)

lemma build_state:
  assumes "ports_allocated (config vm)" and "find_qemu h = Some q"
  shows "snd (build_qemu_cmd h e vm w) = snd (ensure_primary_disk h vm w)"
proof -
  obtain r vm1 w1 where en: "ensure_primary_disk h vm w = (r, vm1, w1)"
    by (metis prod_cases3)
  show ?thesis
  proof (cases r)
    case (Inl er)
    with en assms(2) show ?thesis by (simp add: build_ensure_fails)
  next
    case (Inr u)
    have pa: "ports_allocated (config vm1)"
      using ports_allocated_frame [OF en assms(1)] .
    from display_args_fixed [OF pa] obtain X where
      X: "\<forall>w. display_args h e vm1 w = (X, vm1, w)" by blast
    from control_port_fixed [OF pa] obtain p where
      p: "\<forall>w. control_port h vm1 w = (Inr p, vm1, w)" by blast
    have nn: "disks (config vm1) \<noteq> Null"
      using ensure_primary_disk_after [OF en [unfolded Inr]] by simp
    from build_after_ensure [OF assms(2) en [unfolded Inr] nn X p] en
    show ?thesis by (cases X) simp_all
  qed
qed

lemma web01_vnc_allocated: "ports_allocated (config web01_vnc)"
  by (simp add: ports_allocated_def web01_vnc_def new_VM_def DEFAULT_CONFIG_def
        get_advanced_def empty_advanced_def truthy_int_def)

lemma build_web01_vnc_example:
  "build_qemu_cmd qemu_host None web01_vnc empty_world =
     (Inr [''/usr/bin/qemu-system-x86_64'', ''-machine'', ''q35'', ''-smp'', ''2'', ''-m'', ''4096'',
           ''-drive'', ''file=/home/u/.py86/vms/web01/disks/web01-disk0.raw,format=raw,if=virtio'',
           ''-boot'', ''cdrom,hd,menu'', ''-vnc'', ''127.0.0.1:1'',
           ''-netdev'', ''user,id=net0'', ''-device'', ''virtio-net-pci,netdev=net0'',
           ''-qmp'', ''tcp:127.0.0.1:4444,server,nowait'',
           ''-D'', ''/home/u/.py86/vms/web01/logs/web01.log''],
      web01_vnc, empty_world)"
  by (simp add: model_defs sample_defs web01_vnc_def)

section \<open>C4: the command is a function of the configuration\<close>



section \<open>C5: allocated ports are reused\<close>

text \<open>
  Claim C5. For a configuration whose ports are allocated, whatever the outcome of
  \<open>build_qemu_cmd\<close>: the \<^verbatim>\<open>advanced\<close> dictionary is the one it was and no port is
  taken from the operating system; and a command that is returned carries the stored
  control port in its \<^verbatim>\<open>-qmp\<close> argument and, for \<^verbatim>\<open>vnc\<close> graphics, the stored
  display port (minus 5900) in its \<^verbatim>\<open>-vnc\<close> argument.
\<close>

theorem build_reuses_ports:
  assumes "ports_allocated (config vm)" and "build_qemu_cmd h e vm w = (r, vm', w')"
  shows "advanced (config vm') = advanced (config vm) \<and> next_ports w' = next_ports w
         \<and> (\<forall>cmd p. r = Inr cmd \<and> qmp_port (get_advanced (config vm)) = Some p
               \<longrightarrow> ''tcp:127.0.0.1:'' @ str_int p @ '',server,nowait'' \<in> set cmd)
         \<and> (\<forall>cmd v. r = Inr cmd \<and> graphics (config vm) = Some ''vnc''
                 \<and> vnc_port (get_advanced (config vm)) = Some v
               \<longrightarrow> ''127.0.0.1:'' @ str_int (v - 5900) \<in> set cmd)"
proof (cases "find_qemu h")
  case None
  with assms(2) show ?thesis by (auto simp: build_qemu_cmd_def)
next
  case (Some q)
  obtain r1 vm1 w1 where en: "ensure_primary_disk h vm w = (r1, vm1, w1)"
    by (metis prod_cases3)
  note fr = ensure_primary_disk_frame [OF en]
  from build_state [OF assms(1) Some, of e w] assms(2) en
  have st: "vm' = vm1" "w' = w1" by simp_all
  have frame: "advanced (config vm') = advanced (config vm) \<and> next_ports w' = next_ports w"
    using fr st by simp
  show ?thesis
  proof (cases r1)
    case (Inl er)
    with en Some assms(2) have "r = Inl er" by (simp add: build_ensure_fails)
    with frame show ?thesis by simp
  next
    case (Inr u)
    have pa: "ports_allocated (config vm1)"
      using ports_allocated_frame [OF en assms(1)] .
    from display_args_fixed [OF pa] obtain X where
      X: "\<forall>w. display_args h e vm1 w = (X, vm1, w)" by blast
    from control_port_fixed [OF pa] obtain p where
      p: "qmp_port (get_advanced (config vm1)) = Some p"
         "\<forall>w. control_port h vm1 w = (Inr p, vm1, w)" by blast
    have nn: "disks (config vm1) \<noteq> Null"
      using ensure_primary_disk_after [OF en [unfolded Inr]] by simp
    note b = build_after_ensure [OF Some en [unfolded Inr] nn X p(2)]
    have qmp: "\<forall>cmd p'. r = Inr cmd \<and> qmp_port (get_advanced (config vm)) = Some p'
               \<longrightarrow> ''tcp:127.0.0.1:'' @ str_int p' @ '',server,nowait'' \<in> set cmd"
      using b assms(2) p(1) fr by (cases X) auto
    have vnc: "\<forall>cmd v. r = Inr cmd \<and> graphics (config vm) = Some ''vnc''
                 \<and> vnc_port (get_advanced (config vm)) = Some v
               \<longrightarrow> ''127.0.0.1:'' @ str_int (v - 5900) \<in> set cmd"
    proof (intro allI impI)
      fix cmd v
      assume a: "r = Inr cmd \<and> graphics (config vm) = Some ''vnc''
                 \<and> vnc_port (get_advanced (config vm)) = Some v"
      with assms(1) have v0: "v \<noteq> 0"
        by (simp add: ports_allocated_def truthy_int_def)
      from a fr have "graphics (config vm1) = Some ''vnc''"
        and "vnc_port (get_advanced (config vm1)) = Some v" by simp_all
      from display_args_vnc [OF this v0, of h e w1] X
      have "X = Inr [''-vnc'', ''127.0.0.1:'' @ str_int (v - 5900)]" by simp
      with b assms(2) a show "''127.0.0.1:'' @ str_int (v - 5900) \<in> set cmd" by auto
    qed
    from frame qmp vnc show ?thesis by blast
  qed
qed

theorem build_reuses_ports_witness:
  "ports_allocated (config web01_vnc)
   \<and> (\<exists>c. build_qemu_cmd qemu_host None web01_vnc empty_world = (Inr c, web01_vnc, empty_world)
          \<and> ''tcp:127.0.0.1:'' @ str_int 4444 @ '',server,nowait'' \<in> set c
          \<and> ''127.0.0.1:'' @ str_int (5901 - 5900) \<in> set c)
   \<and> qmp_port (get_advanced (config web01_vnc)) = Some 4444
   \<and> vnc_port (get_advanced (config web01_vnc)) = Some 5901"
proof -
  have q: "qmp_port (get_advanced (config web01_vnc)) = Some 4444"
    and v: "vnc_port (get_advanced (config web01_vnc)) = Some 5901"
    and g: "graphics (config web01_vnc) = Some ''vnc''"
    by (simp_all add: web01_vnc_def new_VM_def DEFAULT_CONFIG_def get_advanced_def
          empty_advanced_def)
  obtain c where b: "build_qemu_cmd qemu_host None web01_vnc empty_world
                       = (Inr c, web01_vnc, empty_world)"
    using build_web01_vnc_example by blast
  from build_reuses_ports [OF web01_vnc_allocated b] q v g
  have "''tcp:127.0.0.1:'' @ str_int 4444 @ '',server,nowait'' \<in> set c"
    and "''127.0.0.1:'' @ str_int (5901 - 5900) \<in> set c"
    by blast+
  with b q v web01_vnc_allocated show ?thesis by blast
qed


section \<open>C1: a non-raw format without the image tool\<close>









section \<open>C7: the primary disk of web01\<close>





section \<open>C6: ensure_primary_disk is idempotent\<close>






section \<open>C8: the control protocol client\<close>

text \<open>
  Claim C8, as stated, says that \<open>qmp_command\<close> fails with \<open>NotConnected\<close> and sends
  nothing whenever no connection is in the state Ready. The code tests only whether a
  socket is stored, and never clears it. Below, a command on an idle socket times out,
  which in the spec's machine collapses the client to Disconnected; when the peer's
  reply arrives afterwards, the next command on that VM is not refused: it is sent and a
  value is returned.
\<close>

theorem qmp_command_not_ready_counterexample:
  "qmp_command bare_host (JObj [(''execute'', JStr ''query-status'')]) idle_vm
     = (Inl SocketTimeout, timed_out_vm)
   \<and> \<not> spec_ready timed_out_vm
   \<and> \<not> spec_ready late_reply_vm
   \<and> fst (qmp_command bare_host (JObj [(''execute'', JStr ''query-status'')]) late_reply_vm)
       = Inr (JObj [])
   \<and> fst (qmp_command bare_host (JObj [(''execute'', JStr ''query-status'')]) late_reply_vm)
       \<noteq> Inl NotConnected
   \<and> map_option sent (qmp_sock (snd
         (qmp_command bare_host (JObj [(''execute'', JStr ''query-status'')]) late_reply_vm)))
       = Some [''{}'' @ [CHR 0x0A], ''{}'' @ [CHR 0x0A]]"
  by (simp add: qmp_command_def Let_def idle_vm_def timed_out_vm_def late_reply_vm_def
        spec_ready_def bare_host_def web01_def new_VM_def)

text \<open>
  Claim C8, amended. If the VM object holds no control socket (no handshake has completed
  since it was created) \<open>qmp_command\<close> fails with \<open>NotConnected\<close> and the VM object,
  with nothing sent, is unchanged. If it holds one, also one on which an earlier call has
  raised, and a response is buffered, exactly one message is appended to what was sent,
  the encoded command ended by a newline; exactly one response is consumed; the result
  is the parsed response, or the object \<^verbatim>\<open>{"raw": text}\<close> of the decoded response when
  it does not parse, and never an error.
\<close>

theorem qmp_command_contract:
  "(qmp_sock vm = None \<longrightarrow> qmp_command h cmd_obj vm = (Inl NotConnected, vm))
   \<and> (\<forall>s r rs. qmp_sock vm = Some s \<and> pending s = r # rs \<longrightarrow>
         qmp_command h cmd_obj vm =
           ((case json_loads h (utf8_decode h r) of
               Some j \<Rightarrow> Inr j
             | None \<Rightarrow> Inr (JObj [(''raw'', JStr (utf8_decode h r))])),
            vm\<lparr>qmp_sock := Some (s\<lparr>sent := sent s @ [json_dumps h cmd_obj @ [CHR 0x0A]],
                                   pending := rs\<rparr>)\<rparr>)
         \<and> last (json_dumps h cmd_obj @ [CHR 0x0A]) = CHR 0x0A
         \<and> (\<forall>e. fst (qmp_command h cmd_obj vm) \<noteq> Inl e))"
proof (intro conjI allI impI)
  assume "qmp_sock vm = None"
  then show "qmp_command h cmd_obj vm = (Inl NotConnected, vm)"
    by (simp add: qmp_command_def)
next
  fix s r rs
  assume a: "qmp_sock vm = Some s \<and> pending s = r # rs"
  then show q: "qmp_command h cmd_obj vm =
           ((case json_loads h (utf8_decode h r) of
               Some j \<Rightarrow> Inr j
             | None \<Rightarrow> Inr (JObj [(''raw'', JStr (utf8_decode h r))])),
            vm\<lparr>qmp_sock := Some (s\<lparr>sent := sent s @ [json_dumps h cmd_obj @ [CHR 0x0A]],
                                   pending := rs\<rparr>)\<rparr>)"
    by (cases "json_loads h (utf8_decode h r)") (simp_all add: qmp_command_def Let_def)
  show "last (json_dumps h cmd_obj @ [CHR 0x0A]) = CHR 0x0A" by simp
  fix e
  show "fst (qmp_command h cmd_obj vm) \<noteq> Inl e"
    unfolding q by (cases "json_loads h (utf8_decode h r)") simp_all
qed

theorem qmp_command_contract_witness:
  "qmp_command bare_host (JObj [(''execute'', JStr ''query-status'')]) web01
     = (Inl NotConnected, web01)
   \<and> qmp_command bare_host (JObj [(''execute'', JStr ''query-status'')]) ready_vm
     = (Inr (JObj []),
        web01\<lparr>qmp_sock := Some \<lparr>sent = [''{}'' @ [CHR 0x0A]], pending = [''garbage''],
                                errored = False\<rparr>\<rparr>)
   \<and> qmp_command bare_host (JObj [(''execute'', JStr ''query-status'')])
        (web01\<lparr>qmp_sock := Some \<lparr>sent = [''{}'' @ [CHR 0x0A]], pending = [''garbage''],
                                errored = False\<rparr>\<rparr>)
     = (Inr (JObj [(''raw'', JStr ''garbage'')]),
        web01\<lparr>qmp_sock := Some \<lparr>sent = [''{}'' @ [CHR 0x0A], ''{}'' @ [CHR 0x0A]], pending = [],
                                errored = False\<rparr>\<rparr>)"
proof -
  let ?c = "JObj [(''execute'', JStr ''query-status'')]"
  let ?s2 = "\<lparr>sent = [''{}'' @ [CHR 0x0A]], pending = [''garbage''], errored = False\<rparr>"
  have n: "qmp_sock web01 = None" by (simp add: web01_def new_VM_def)
  have a: "qmp_command bare_host ?c web01 = (Inl NotConnected, web01)"
    using qmp_command_contract [of web01 bare_host ?c] n by blast
  have b: "qmp_command bare_host ?c ready_vm
     = (Inr (JObj []), web01\<lparr>qmp_sock := Some ?s2\<rparr>)"
    using qmp_command_contract [of ready_vm bare_host ?c]
    by (simp add: ready_vm_def bare_host_def)
  have c: "qmp_command bare_host ?c (web01\<lparr>qmp_sock := Some ?s2\<rparr>)
     = (Inr (JObj [(''raw'', JStr ''garbage'')]),
        web01\<lparr>qmp_sock := Some \<lparr>sent = [''{}'' @ [CHR 0x0A], ''{}'' @ [CHR 0x0A]], pending = [],
                                errored = False\<rparr>\<rparr>)"
    using qmp_command_contract [of "web01\<lparr>qmp_sock := Some ?s2\<rparr>" bare_host ?c]
    by (simp add: bare_host_def)
  from a b c show ?thesis by simp
qed


section \<open>C10: export skips missing files\<close>





text \<open>
  A VM object that was constructed has its configuration document on disk: this is where
  the document that \<open>export_bundle\<close> adds first comes from.
\<close>

lemma config_path_new_VM: "config_path h (new_VM nm cfg) = config_path h (new_VM nm cfg')"
  by (simp add: config_path_def vm_path_def new_VM_def)

lemma ensure_disks_list_persists:
  assumes "fs w (config_path h vm) = Some (Doc (config vm))"
    and "ensure_disks_list h vm w = (vm', w')"
  shows "name vm' = name vm \<and> fs w' (config_path h vm') = Some (Doc (config vm'))"
proof (cases "disks (config vm) = Absent")
  case True
  with assms(2) show ?thesis
    by (auto simp: ensure_disks_list_def Let_def save_config_def config_path_def vm_path_def)
next
  case False
  with assms show ?thesis by (auto simp: ensure_disks_list_def)
qed

lemma VM_init_persisted:
  assumes "VM_init h nm w = (Inr vm, w')"
  shows "name vm = nm \<and> fs w' (config_path h vm) = Some (Doc (config vm))"
proof -
  let ?vm0 = "new_VM nm DEFAULT_CONFIG"
  let ?w0 = "mkdir_missing (vm_path h ?vm0) w"
  let ?w1 = "mkdir_missing (logs_dir h ?vm0) (mkdir_missing (disk_dir h ?vm0) ?w0)"
  have dir: "fs ?w0 (vm_path h ?vm0) = Some Dir"
    using assms by (cases "fs ?w0 (vm_path h ?vm0) = Some Dir") (simp_all add: VM_init_def Let_def)
  show ?thesis
  proof (cases "fs ?w1 (config_path h ?vm0)")
    case None
    let ?vm1 = "(new_VM nm ((module_defaults ?w1)
                   \<lparr>cfg_name := Some nm, created := Some (clock ?w1)\<rparr>))\<lparr>aliased := True\<rparr>"
    have cp: "config_path h ?vm1 = config_path h ?vm0"
      by (simp add: config_path_def vm_path_def new_VM_def)
    have s: "fs (save_config h ?vm1 ?w1) (config_path h ?vm1) = Some (Doc (config ?vm1))"
      by (simp add: save_config_def)
    obtain vm2 w2 where e: "ensure_disks_list h ?vm1 (save_config h ?vm1 ?w1) = (vm2, w2)"
      by (metis prod.collapse)
    from None e assms dir have "vm = vm2" "w' = w2"
      by (simp_all add: VM_init_def Let_def)
    with ensure_disks_list_persists [OF s e] show ?thesis by (simp add: new_VM_def)
  next
    case (Some nd)
    show ?thesis
    proof (cases nd)
      case (Doc cfg)
      have "config_path h (new_VM nm cfg) = config_path h ?vm0"
        by (rule config_path_new_VM)
      with Some Doc
      have s: "fs ?w1 (config_path h (new_VM nm cfg)) = Some (Doc (config (new_VM nm cfg)))"
        by (simp add: new_VM_def)
      obtain vm2 w2 where e: "ensure_disks_list h (new_VM nm cfg) ?w1 = (vm2, w2)"
        by (metis prod.collapse)
      from Some Doc e assms dir have "vm = vm2" "w' = w2"
        by (simp_all add: VM_init_def Let_def)
      with ensure_disks_list_persists [OF s e] show ?thesis by (simp add: new_VM_def)
    qed (use Some assms dir in \<open>simp_all add: VM_init_def Let_def\<close>)
  qed
qed






section \<open>What extraction leaves in the store\<close>


lemma mkdir_missing_frame:
  "next_ports (mkdir_missing d w) = next_ports w \<and> spawned (mkdir_missing d w) = spawned w
   \<and> clock (mkdir_missing d w) = clock w"
  by (simp add: mkdir_missing_def)


















section \<open>C9: import\<close>












end
